theory Spec2Isabelle
  imports
    Complex_Main
    "HOL-Library.AList"
    "HOL-Library.Char_ord"
    "HOL-Library.List_Lexorder"
    "HOL-Library.Product_Lexorder"
begin

section \<open>The sector dashboard (display.py)\<close>

text \<open>
  The program loads a table of daily stock observations (from the cache file
  \<^verbatim>\<open>sector_data.csv\<close>, or from the WRDS warehouse when the file is absent), cleans
  it, joins one beta per ticker fetched from a market-data service, and serves two
  Dash callbacks over the cleaned table.

  A DataFrame is a list of rows, in row order; a cell that pandas holds as null
  (\<^verbatim>\<open>NaN\<close>, \<^verbatim>\<open>NaT\<close>, \<^verbatim>\<open>None\<close>) is \<open>None\<close>. Numbers are values of a type \<open>'n\<close>
  of which the definitions use only the operations the source applies, so the
  results hold whatever the arithmetic of the columns is. Dates are integers
  (days), tickers are strings.

  Left symbolic: the text of the cache file (its content is the table it parses
  to), what is printed, the formatting of a number into a string (a component holds
  the number) and the drawing of a chart (a figure holds the columns it is given).
  An exception is a value \<open>Inl e\<close>; formatting a cell that is not a number but
  Python's \<^verbatim>\<open>None\<close> is one.
\<close>

subsection \<open>Tables\<close>

text \<open>The raw table: the columns selected by the warehouse query plus \<^verbatim>\<open>ticker\<close>.\<close>

record 'n raw_row =
  permno :: "int option"
  date :: "int option"
  stock_price :: "'n option"
  shrout :: "'n option"
  volume :: "'n option"
  ticker :: "string option"

text \<open>The table after \<^verbatim>\<open>data["market_cap"] = ...\<close>.\<close>

record 'n priced_row = "'n raw_row" +
  market_cap :: "'n option"

text \<open>The table after the merge with the betas.\<close>

record 'n clean_row = "'n priced_row" +
  beta :: "'n option"

subsection \<open>The external services\<close>

text \<open>
  \<^verbatim>\<open>yf.Ticker(ticker).info\<close> either raises or yields a dictionary. The service
  is a function of a hidden state (it may answer differently from one call to the
  next) and the ticker asked; it returns the reply and its next state.
\<close>

datatype 'n reply = Raises | Info "string \<rightharpoonup> 'n option"

type_synonym ('n, 's) yf_service = "'s \<Rightarrow> string option \<Rightarrow> 'n reply \<times> 's"

text \<open>The two warehouse tables the queries read.\<close>

record 'n dsf_row =
  dsf_permno :: int
  dsf_date :: "int option"
  prc :: "'n option"
  dsf_shrout :: "'n option"
  vol :: "'n option"

record 'n crsp =
  dsf :: "'n dsf_row list"
  msenames :: "(int \<times> string option) list"

text \<open>Requests sent over the network, in the order they are issued.\<close>

datatype net_call = Wrds_Connect | Wrds_Raw_Sql | Yf_Lookup "string option"

text \<open>
  What the program sees of the outside: the parsed content of the cache file
  (\<open>None\<close> when the file does not exist), the warehouse (\<open>None\<close> when the
  connection cannot be made), the state of the beta service, and the log of the
  network requests made so far.
\<close>

record ('n, 's) world =
  csv_file :: "'n raw_row list option"
  wrds_db :: "'n crsp option"
  yf_state :: 's
  net_log :: "net_call list"

datatype error = ConnectionError | KeyError | IndexError | TypeError

subsection \<open>Pandas operations used by the cleaning\<close>

text \<open>
  \<^verbatim>\<open>drop_duplicates(subset=...)\<close> and \<^verbatim>\<open>unique()\<close> keep the first occurrence
  of every key, in order of appearance; null keys are equal to each other.
\<close>

fun drop_duplicates_from :: "('r \<Rightarrow> 'k) \<Rightarrow> 'k list \<Rightarrow> 'r list \<Rightarrow> 'r list" where
  "drop_duplicates_from key seen [] = []"
| "drop_duplicates_from key seen (r # rs) =
     (if key r \<in> set seen then drop_duplicates_from key seen rs
      else r # drop_duplicates_from key (key r # seen) rs)"

definition drop_duplicates :: "('r \<Rightarrow> 'k) \<Rightarrow> 'r list \<Rightarrow> 'r list" where
  "drop_duplicates key rs = drop_duplicates_from key [] rs"

definition unique :: "'k list \<Rightarrow> 'k list" where
  "unique xs = drop_duplicates (\<lambda>x. x) xs"

definition ticker_date :: "('n, 'z) raw_row_scheme \<Rightarrow> string option \<times> int option" where
  "ticker_date r = (ticker r, date r)"

text \<open>\<^verbatim>\<open>dropna(subset=["stock_price", "shrout"])\<close>.\<close>

definition dropna :: "('n, 'z) raw_row_scheme list \<Rightarrow> ('n, 'z) raw_row_scheme list" where
  "dropna rs = filter (\<lambda>r. stock_price r \<noteq> None \<and> shrout r \<noteq> None) rs"

text \<open>
  \<^verbatim>\<open>data["stock_price"] * data["shrout"] * 1000\<close>, row by row; a null operand
  gives a null product.
\<close>

definition times_cell :: "'n::times option \<Rightarrow> 'n option \<Rightarrow> 'n option" where
  "times_cell a b = (case (a, b) of (Some x, Some y) \<Rightarrow> Some (x * y) | _ \<Rightarrow> None)"

definition add_market_cap :: "'n::{times,numeral} raw_row \<Rightarrow> 'n priced_row" where
  "add_market_cap r =
     \<lparr>permno = permno r, date = date r, stock_price = stock_price r, shrout = shrout r,
      volume = volume r, ticker = ticker r,
      market_cap = times_cell (times_cell (stock_price r) (shrout r)) (Some 1000)\<rparr>"

subsection \<open>fetch_betas\<close>

text \<open>
  \<^verbatim>\<open>stock.info.get("beta", None)\<close>, and \<open>None\<close> from the \<^verbatim>\<open>except\<close> branch.
\<close>

fun beta_of_reply :: "'n reply \<Rightarrow> 'n option" where
  "beta_of_reply Raises = None"
| "beta_of_reply (Info info) = (case info ''beta'' of None \<Rightarrow> None | Some b \<Rightarrow> b)"

text \<open>
  The loop over the tickers. \<open>beta_values\<close> is the dictionary, as an association
  list in insertion order: assigning to a key that is present replaces its value in
  place, a new key is appended.
\<close>

fun fetch_betas_loop ::
  "('n, 's) yf_service \<Rightarrow> string option list \<Rightarrow> (string option \<times> 'n option) list \<Rightarrow>
   ('n, 's) world \<Rightarrow> (string option \<times> 'n option) list \<times> ('n, 's) world" where
  "fetch_betas_loop yf [] beta_values w = (beta_values, w)"
| "fetch_betas_loop yf (t # ts) beta_values w =
     (case yf (yf_state w) t of (rep, s') \<Rightarrow>
        fetch_betas_loop yf ts (AList.update t (beta_of_reply rep) beta_values)
          (w\<lparr>yf_state := s', net_log := net_log w @ [Yf_Lookup t]\<rparr>))"

text \<open>The returned frame has one row \<open>(ticker, beta)\<close> per dictionary entry.\<close>

definition fetch_betas ::
  "('n, 's) yf_service \<Rightarrow> string option list \<Rightarrow> ('n, 's) world \<Rightarrow>
   (string option \<times> 'n option) list \<times> ('n, 's) world" where
  "fetch_betas yf tickers w = fetch_betas_loop yf tickers [] w"

text \<open>The replies the service gives to the successive lookups of a run of the loop.\<close>

fun lookup_replies ::
  "('n, 's) yf_service \<Rightarrow> 's \<Rightarrow> string option list \<Rightarrow> (string option \<times> 'n reply) list" where
  "lookup_replies yf s [] = []"
| "lookup_replies yf s (t # ts) =
     (case yf s t of (rep, s') \<Rightarrow> (t, rep) # lookup_replies yf s' ts)"

subsection \<open>clean_data\<close>

definition add_beta :: "'n priced_row \<Rightarrow> 'n option \<Rightarrow> 'n clean_row" where
  "add_beta r b =
     \<lparr>permno = permno r, date = date r, stock_price = stock_price r, shrout = shrout r,
      volume = volume r, ticker = ticker r, market_cap = market_cap r, beta = b\<rparr>"

text \<open>
  \<^verbatim>\<open>pd.merge(data, betas, on="ticker", how="left")\<close>: every left row, in order,
  once for each right row with the same ticker, and once with a null beta when there
  is none.
\<close>

definition merge_left ::
  "'n priced_row list \<Rightarrow> (string option \<times> 'n option) list \<Rightarrow> 'n clean_row list" where
  "merge_left left right =
     concat (map (\<lambda>r. case filter (\<lambda>b. fst b = ticker r) right of
                         [] \<Rightarrow> [add_beta r None]
                       | ms \<Rightarrow> map (\<lambda>b. add_beta r (snd b)) ms) left)"

text \<open>The beta the frame of betas gives for a ticker: null when it has no row for it.\<close>

definition beta_for :: "(string option \<times> 'n option) list \<Rightarrow> string option \<Rightarrow> 'n option" where
  "beta_for betas k = (case map_of betas k of None \<Rightarrow> None | Some b \<Rightarrow> b)"

text \<open>The table as it is before the betas are fetched (lines 80 to 82).\<close>

definition priced :: "'n::{times,numeral} raw_row list \<Rightarrow> 'n priced_row list" where
  "priced data = map add_market_cap (dropna (drop_duplicates ticker_date data))"

definition clean_data ::
  "('n::{times,numeral}, 's) yf_service \<Rightarrow> 'n raw_row list \<Rightarrow> ('n, 's) world \<Rightarrow>
   'n clean_row list \<times> ('n, 's) world" where
  "clean_data yf data w =
     (let data1 = priced data;
          tickers = unique (map ticker data1)
      in case fetch_betas yf tickers w of (betas, w') \<Rightarrow> (merge_left data1 betas, w'))"

subsection \<open>Constants\<close>

text \<open>The static sector table, a dictionary in insertion order.\<close>

definition SECTOR_TICKERS :: "(string \<times> string list) list" where
  "SECTOR_TICKERS =
    [(''Technology'', [''AAPL'', ''MSFT'', ''GOOG'', ''NVDA'', ''AMD'', ''ORCL'', ''CRM'', ''ADBE'', ''INTC'', ''HPQ'']),
     (''Healthcare'', [''JNJ'', ''PFE'', ''MRK'', ''LLY'', ''ABT'', ''TMO'', ''BMY'', ''AMGN'', ''CVS'', ''GILD'']),
     (''Energy'', [''XOM'', ''CVX'', ''BP'', ''TOT'', ''COP'', ''ENB'', ''EOG'', ''KMI'', ''SLB'', ''OXY'']),
     (''Finance'', [''JPM'', ''BAC'', ''C'', ''WFC'', ''GS'', ''MS'', ''SCHW'', ''AXP'', ''USB'', ''TD'']),
     (''Consumer Discretionary'', [''TSLA'', ''AMZN'', ''HD'', ''MCD'', ''NKE'', ''SBUX'', ''DIS'', ''BKNG'', ''LOW'', ''TGT'']),
     (''Consumer Staples'', [''PG'', ''KO'', ''PEP'', ''WMT'', ''COST'', ''MDLZ'', ''CL'', ''KHC'', ''KR'', ''TAP'']),
     (''Industrials'', [''MMM'', ''HON'', ''GE'', ''BA'', ''CAT'', ''RTX'', ''LMT'', ''DE'', ''UPS'', ''FDX'']),
     (''Utilities'', [''NEE'', ''DUK'', ''SO'', ''AEP'', ''EXC'', ''SRE'', ''D'', ''PEG'', ''ED'', ''XEL'']),
     (''Real Estate'', [''AMT'', ''PLD'', ''CCI'', ''EQIX'', ''SPG'', ''PSA'', ''O'', ''WELL'', ''VTR'', ''HST'']),
     (''Materials'', [''LIN'', ''APD'', ''SHW'', ''ECL'', ''NUE'', ''DOW'', ''DD'', ''FCX'', ''ALB'', ''CE''])]"

text \<open>
  \<^verbatim>\<open>SECTOR_TICKERS[sector]\<close>. The callbacks receive the value of the sector
  dropdown, which is \<open>None\<close> once the user has cleared it; a key that is not in the
  dictionary raises.
\<close>

definition sector_lookup :: "string option \<Rightarrow> error + string list" where
  "sector_lookup sector =
     (case sector of
        None \<Rightarrow> Inl KeyError
      | Some s \<Rightarrow> (case map_of SECTOR_TICKERS s of None \<Rightarrow> Inl KeyError | Some ts \<Rightarrow> Inr ts))"

subsection \<open>get_or_download_data\<close>

text \<open>\<^verbatim>\<open>x IN (...)\<close> and \<^verbatim>\<open>isin\<close>: a null is in no list of strings.\<close>

definition isin :: "string option \<Rightarrow> string list \<Rightarrow> bool" where
  "isin x xs = (case x of None \<Rightarrow> False | Some t \<Rightarrow> t \<in> set xs)"

text \<open>The date literal \<^verbatim>\<open>'2015-01-01'\<close> in days since 1970-01-01.\<close>

definition date_2015_01_01 :: int where
  "date_2015_01_01 = 16436"

text \<open>The first query: rows of \<^verbatim>\<open>crsp.dsf\<close> since 2015 of the securities named.\<close>

definition price_query :: "'n crsp \<Rightarrow> string list \<Rightarrow> 'n dsf_row list" where
  "price_query db tickers =
     filter (\<lambda>r. dsf_permno r \<in> set (map fst (filter (\<lambda>m. isin (snd m) tickers) (msenames db)))
               \<and> (case dsf_date r of None \<Rightarrow> False | Some d \<Rightarrow> date_2015_01_01 \<le> d))
       (dsf db)"

text \<open>The second query: the \<^verbatim>\<open>(permno, ticker)\<close> rows of \<^verbatim>\<open>crsp.msenames\<close>.\<close>

definition mapping_query :: "'n crsp \<Rightarrow> string list \<Rightarrow> (int \<times> string option) list" where
  "mapping_query db tickers = filter (\<lambda>m. isin (snd m) tickers) (msenames db)"

text \<open>\<^verbatim>\<open>dict(zip(...))\<close>: a later pair replaces an earlier one with the same key.\<close>

definition dict_of :: "('k \<times> 'v) list \<Rightarrow> ('k \<times> 'v) list" where
  "dict_of kvs = foldl (\<lambda>d kv. AList.update (fst kv) (snd kv) d) [] kvs"

definition with_ticker :: "(int \<times> string option) list \<Rightarrow> 'n dsf_row \<Rightarrow> 'n raw_row" where
  "with_ticker permno_to_ticker r =
     \<lparr>permno = Some (dsf_permno r), date = dsf_date r, stock_price = prc r,
      shrout = dsf_shrout r, volume = vol r,
      ticker = (case map_of permno_to_ticker (dsf_permno r) of None \<Rightarrow> None | Some t \<Rightarrow> t)\<rparr>"

text \<open>
  With the cache file present the function returns its content and touches nothing
  else. Without it, a connection that cannot be made raises; otherwise the two
  queries run, the table is written to the cache file and returned.
\<close>

definition get_or_download_data ::
  "('n, 's) world \<Rightarrow> (error + 'n raw_row list) \<times> ('n, 's) world" where
  "get_or_download_data w =
     (case csv_file w of
        Some cached \<Rightarrow> (Inr cached, w)
      | None \<Rightarrow>
          (case wrds_db w of
             None \<Rightarrow> (Inl ConnectionError, w\<lparr>net_log := net_log w @ [Wrds_Connect]\<rparr>)
           | Some db \<Rightarrow>
               (let tickers = concat (map snd SECTOR_TICKERS);
                    rows = price_query db tickers;
                    permno_to_ticker = dict_of (mapping_query db tickers);
                    data = map (with_ticker permno_to_ticker) rows
                in (Inr data,
                    w\<lparr>csv_file := Some data,
                      net_log := net_log w @ [Wrds_Connect, Wrds_Raw_Sql, Wrds_Raw_Sql]\<rparr>))))"

text \<open>The module's start: \<^verbatim>\<open>data = get_or_download_data(); data = clean_data(data)\<close>.\<close>

definition load_and_clean ::
  "('n::{times,numeral}, 's) yf_service \<Rightarrow> ('n, 's) world \<Rightarrow>
   (error + 'n clean_row list) \<times> ('n, 's) world" where
  "load_and_clean yf w =
     (case get_or_download_data w of
        (Inl e, w') \<Rightarrow> (Inl e, w')
      | (Inr data, w') \<Rightarrow> (case clean_data yf data w' of (cleaned, w'') \<Rightarrow> (Inr cleaned, w'')))"

subsection \<open>The page and its callbacks\<close>

record dropdown_option =
  label :: string
  opt_value :: string

text \<open>The sector dropdown of \<^verbatim>\<open>app.layout\<close>: its options and its initial value.\<close>

definition sector_dropdown_options :: "dropdown_option list" where
  "sector_dropdown_options = map (\<lambda>sector. \<lparr>label = sector, opt_value = sector\<rparr>) (map fst SECTOR_TICKERS)"

definition sector_dropdown_value :: "error + string" where
  "sector_dropdown_value = (case map fst SECTOR_TICKERS of [] \<Rightarrow> Inl IndexError | s # _ \<Rightarrow> Inr s)"

definition update_ticker_dropdown :: "string option \<Rightarrow> error + dropdown_option list" where
  "update_ticker_dropdown sector =
     (case sector_lookup sector of
        Inl e \<Rightarrow> Inl e
      | Inr tickers \<Rightarrow> Inr (map (\<lambda>ticker. \<lparr>label = ticker, opt_value = ticker\<rparr>) tickers))"

text \<open>
  The components the dashboard callback builds. \<open>Fmt p v\<close> is an f-string: the
  literal \<open>p\<close> followed by the number \<open>v\<close> formatted to two decimals (a null number
  is \<open>None\<close>). A figure holds the columns it plots; \<open>Empty_Figure\<close> is \<^verbatim>\<open>{}\<close>.
\<close>

datatype 'n content = Plain string | Fmt string "'n option"

datatype 'n html =
    Div "'n html list"
  | H4 string
  | Ul "'n html list"
  | Li "'n content"
  | Table "'n html list"
  | Tr "'n html list"
  | Th string
  | Td "'n content"

datatype 'n figure =
    Empty_Figure
  | Line_Figure "(string \<times> int \<times> 'n option) list"
  | Bar_Figure "(string \<times> 'n option) list"

text \<open>\<^verbatim>\<open>Series.mean()\<close>: the mean of the non-null cells, null when there is none.\<close>

definition mean :: "'n::field option list \<Rightarrow> 'n option" where
  "mean col =
     (case List.map_filter (\<lambda>x. x) col of
        [] \<Rightarrow> None
      | ys \<Rightarrow> Some (sum_list ys / of_nat (length ys)))"

definition averages_of :: "'n::field clean_row list \<Rightarrow> 'n html" where
  "averages_of sector_data =
     Div [H4 ''Sector Averages'',
          Ul [Li (Fmt ''Average Market Cap: $'' (mean (map market_cap sector_data))),
              Li (Fmt ''Average Stock Price: $'' (mean (map stock_price sector_data))),
              Li (Fmt ''Average Beta: '' (mean (map beta sector_data)))]]"

text \<open>
  \<^verbatim>\<open>groupby(['ticker', 'date']).agg({'stock_price': 'mean', 'market_cap': 'mean'})
  .reset_index()\<close>: one row per key, keys sorted, rows with a null key left out.
\<close>

definition group_keys :: "'n clean_row list \<Rightarrow> (string \<times> int) list" where
  "group_keys rs =
     sort (remdups (List.map_filter
       (\<lambda>r. case (ticker r, date r) of (Some t, Some d) \<Rightarrow> Some (t, d) | _ \<Rightarrow> None) rs))"

definition group_by_ticker_date ::
  "'n::field clean_row list \<Rightarrow> (string \<times> int \<times> 'n option \<times> 'n option) list" where
  "group_by_ticker_date rs =
     map (\<lambda>(t, d).
            (let g = filter (\<lambda>r. ticker r = Some t \<and> date r = Some d) rs
             in (t, d, mean (map stock_price g), mean (map market_cap g))))
       (group_keys rs)"

text \<open>\<^verbatim>\<open>groupby("ticker").mean().reset_index()\<close>, of which the bar chart plots
  \<^verbatim>\<open>market_cap\<close> against \<^verbatim>\<open>ticker\<close>.\<close>

definition group_by_ticker ::
  "(string \<times> int \<times> 'n::field option \<times> 'n option) list \<Rightarrow> (string \<times> 'n option) list" where
  "group_by_ticker gs =
     map (\<lambda>t. (t, mean (map (\<lambda>g. snd (snd (snd g))) (filter (\<lambda>g. fst g = t) gs))))
       (sort (remdups (map fst gs)))"

text \<open>
  What the cells of the beta column are. \<^verbatim>\<open>fetch_betas\<close> builds the column from
  the values of its dictionary: when none of them is a number, pandas keeps the
  column as objects and every cell is Python's \<^verbatim>\<open>None\<close>; as soon as one is a
  number the column is a float column and a null cell is \<^verbatim>\<open>NaN\<close>. The merge
  takes the cells over as they are, and every ticker of the dictionary has a row, so
  the cells of the cleaned table are \<^verbatim>\<open>None\<close> objects exactly when all of them
  are null.
\<close>

definition beta_column_is_object :: "'n clean_row list \<Rightarrow> bool" where
  "beta_column_is_object data = list_all (\<lambda>r. beta r = None) data"

text \<open>
  \<^verbatim>\<open>f"{beta:.2f}"\<close> of a cell of the beta column: \<^verbatim>\<open>NaN\<close> is formatted like
  any float, \<^verbatim>\<open>None\<close> has no such format and raises \<^verbatim>\<open>TypeError\<close>.
\<close>

definition format_beta :: "bool \<Rightarrow> 'n option \<Rightarrow> error + 'n content" where
  "format_beta object_column b =
     (case b of
        None \<Rightarrow> if object_column then Inl TypeError else Inr (Fmt [] None)
      | Some x \<Rightarrow> Inr (Fmt [] (Some x)))"

text \<open>
  The rows of the beta table: for each selected ticker in turn, the beta of the
  first row of that ticker in the sector's data, formatted. \<^verbatim>\<open>.iloc[0]\<close> on an
  empty selection raises \<^verbatim>\<open>IndexError\<close>; the first ticker that raises ends the
  construction.
\<close>

fun beta_rows :: "bool \<Rightarrow> 'n clean_row list \<Rightarrow> string list \<Rightarrow> error + 'n html list" where
  "beta_rows object_column sector_data [] = Inr []"
| "beta_rows object_column sector_data (t # ts) =
     (case filter (\<lambda>r. ticker r = Some t) sector_data of
        [] \<Rightarrow> Inl IndexError
      | r # _ \<Rightarrow>
          (case format_beta object_column (beta r) of
             Inl e \<Rightarrow> Inl e
           | Inr cell \<Rightarrow>
               (case beta_rows object_column sector_data ts of
                  Inl e \<Rightarrow> Inl e
                | Inr trs \<Rightarrow> Inr (Tr [Td (Plain t), Td cell] # trs))))"

definition sector_rows :: "'n clean_row list \<Rightarrow> string list \<Rightarrow> 'n clean_row list" where
  "sector_rows data sector_tickers = filter (\<lambda>r. isin (ticker r) sector_tickers) data"

text \<open>
  The callback, on the cleaned table \<open>data\<close>. \<open>selected_tickers\<close> is the value of
  the multi-select dropdown: \<open>None\<close> until something is chosen, then a list.
\<close>

definition update_dashboard ::
  "'n::field clean_row list \<Rightarrow> string option \<Rightarrow> string list option \<Rightarrow>
   error + ('n html \<times> 'n figure \<times> 'n figure)" where
  "update_dashboard data sector selected_tickers =
     (case sector_lookup sector of
        Inl e \<Rightarrow> Inl e
      | Inr sector_tickers \<Rightarrow>
          (let sector_data = sector_rows data sector_tickers;
               averages = averages_of sector_data
           in case selected_tickers of
                None \<Rightarrow> Inr (averages, Empty_Figure, Empty_Figure)
              | Some selected \<Rightarrow>
                  if selected = [] then Inr (averages, Empty_Figure, Empty_Figure)
                  else
                    (let selected_data =
                           group_by_ticker_date
                             (filter (\<lambda>r. isin (ticker r) selected) sector_data);
                         trend_fig = Line_Figure (map (\<lambda>(t, d, p, m). (t, d, p)) selected_data);
                         comparison_fig = Bar_Figure (group_by_ticker selected_data)
                     in case beta_rows (beta_column_is_object data) sector_data selected of
                          Inl e \<Rightarrow> Inl e
                        | Inr trs \<Rightarrow>
                            Inr (Div [averages,
                                      Div [H4 ''Selected Ticker Betas'',
                                           Table (Tr [Th ''Ticker'', Th ''Beta''] # trs)]],
                                 trend_fig, comparison_fig))))"

subsection \<open>A small run\<close>

text \<open>
  A cache file of five rows: two rows with the same ticker and date, a row without
  a price, a later row of the same ticker, and a row of a second ticker. The example service answers a lookup of
  \<^verbatim>\<open>AAPL\<close> with a beta that changes from one call to the next, raises for
  \<^verbatim>\<open>MSFT\<close> and has no beta for any other ticker; its state counts the calls.
\<close>

definition example_cache :: "rat raw_row list" where
  "example_cache =
     [\<lparr>permno = Some 14593, date = Some 19000, stock_price = Some 10, shrout = Some 2,
       volume = Some 5, ticker = Some ''AAPL''\<rparr>,
      \<lparr>permno = Some 14593, date = Some 19000, stock_price = Some 11, shrout = Some 2,
       volume = Some 6, ticker = Some ''AAPL''\<rparr>,
      \<lparr>permno = Some 14593, date = Some 19001, stock_price = None, shrout = Some 2,
       volume = Some 7, ticker = Some ''AAPL''\<rparr>,
      \<lparr>permno = Some 14593, date = Some 19002, stock_price = Some 12, shrout = Some 2,
       volume = Some 9, ticker = Some ''AAPL''\<rparr>,
      \<lparr>permno = Some 10107, date = Some 19000, stock_price = Some 3, shrout = Some 4,
       volume = Some 8, ticker = Some ''MSFT''\<rparr>]"

definition example_yf :: "(rat, nat) yf_service" where
  "example_yf s t =
     (if t = Some ''AAPL'' then Info [''beta'' \<mapsto> Some (of_nat s)]
      else if t = Some ''MSFT'' then Raises
      else Info Map.empty,
      Suc s)"

definition example_world :: "nat \<Rightarrow> (rat, nat) world" where
  "example_world s = \<lparr>csv_file = Some example_cache, wrds_db = None, yf_state = s, net_log = []\<rparr>"

text \<open>The cleaned table of the run that starts with the service in state 1.\<close>

definition example_aapl :: "rat clean_row" where
  "example_aapl =
     \<lparr>permno = Some 14593, date = Some 19000, stock_price = Some 10, shrout = Some 2,
      volume = Some 5, ticker = Some ''AAPL'', market_cap = Some 20000, beta = Some 1\<rparr>"

definition example_aapl2 :: "rat clean_row" where
  "example_aapl2 =
     \<lparr>permno = Some 14593, date = Some 19002, stock_price = Some 12, shrout = Some 2,
      volume = Some 9, ticker = Some ''AAPL'', market_cap = Some 24000, beta = Some 1\<rparr>"

definition example_msft :: "rat clean_row" where
  "example_msft =
     \<lparr>permno = Some 10107, date = Some 19000, stock_price = Some 3, shrout = Some 4,
      volume = Some 8, ticker = Some ''MSFT'', market_cap = Some 12000, beta = None\<rparr>"

text \<open>
  A cleaned table with a row of another sector, and the table the same cache gives
  when the service is out of reach and every lookup raises.
\<close>

definition example_jpm :: "rat clean_row" where
  "example_jpm =
     \<lparr>permno = Some 47896, date = Some 19000, stock_price = Some 100, shrout = Some 3,
      volume = Some 4, ticker = Some ''JPM'', market_cap = Some 300000, beta = Some 2\<rparr>"

definition example_table :: "rat clean_row list" where
  "example_table = [example_aapl, example_aapl2, example_msft, example_jpm]"



section \<open>Properties\<close>

subsection \<open>First occurrences\<close>

lemma ddf_seen_cong:
  "set seen = set seen' \<Longrightarrow> drop_duplicates_from key seen rs = drop_duplicates_from key seen' rs"
proof (induction rs arbitrary: seen seen')
  case Nil
  then show ?case by simp
next
  case (Cons a rs)
  have mem: "key a \<in> set seen \<longleftrightarrow> key a \<in> set seen'"
    using Cons.prems by simp
  have "set (key a # seen) = set (key a # seen')"
    using Cons.prems by simp
  then have step: "drop_duplicates_from key (key a # seen) rs = drop_duplicates_from key (key a # seen') rs"
    by (rule Cons.IH)
  have same: "drop_duplicates_from key seen rs = drop_duplicates_from key seen' rs"
    using Cons.prems by (rule Cons.IH)
  show ?case
    by (simp only: drop_duplicates_from.simps mem step same)
qed

lemma ddf_fresh: "r \<in> set (drop_duplicates_from key seen rs) \<Longrightarrow> key r \<notin> set seen"
proof (induction rs arbitrary: seen)
  case Nil
  then show ?case by simp
next
  case (Cons a rs)
  show ?case
  proof (cases "key a \<in> set seen")
    case True
    then show ?thesis using Cons by simp
  next
    case False
    from Cons.prems False have "r = a \<or> r \<in> set (drop_duplicates_from key (key a # seen) rs)"
      by simp
    then show ?thesis
    proof
      assume "r = a" then show ?thesis using False by simp
    next
      assume "r \<in> set (drop_duplicates_from key (key a # seen) rs)"
      from Cons.IH [OF this] show ?thesis by simp
    qed
  qed
qed

lemma ddf_distinct: "distinct (map key (drop_duplicates_from key seen rs))"
proof (induction rs arbitrary: seen)
  case Nil
  then show ?case by simp
next
  case (Cons a rs)
  have "key a \<notin> key ` set (drop_duplicates_from key (key a # seen) rs)"
  proof
    assume "key a \<in> key ` set (drop_duplicates_from key (key a # seen) rs)"
    then obtain r where r: "r \<in> set (drop_duplicates_from key (key a # seen) rs)" "key r = key a"
      by auto
    from ddf_fresh [OF r(1)] r(2) show False by simp
  qed
  then show ?case using Cons.IH by simp
qed

lemma ddf_set: "set (drop_duplicates_from (\<lambda>x. x) seen xs) = set xs - set seen"
  by (induction xs arbitrary: seen) auto

lemma unique_distinct: "distinct (unique xs)"
  using ddf_distinct [of "\<lambda>x. x" "[]" xs] by (simp add: unique_def drop_duplicates_def)

lemma unique_set: "set (unique xs) = set xs"
  by (simp add: unique_def drop_duplicates_def ddf_set)

lemma loop_keys:
  "map fst (fst (fetch_betas_loop yf ts bv w)) =
     map fst bv @ drop_duplicates_from (\<lambda>x. x) (map fst bv) ts"
proof (induction ts arbitrary: bv w)
  case Nil
  then show ?case by simp
next
  case (Cons t ts)
  obtain rep s' where y: "yf (yf_state w) t = (rep, s')" by (cases "yf (yf_state w) t")
  show ?case
  proof (cases "t \<in> set (map fst bv)")
    case True
    then show ?thesis using y Cons.IH by (simp add: update_keys)
  next
    case False
    have "drop_duplicates_from (\<lambda>x. x) (map fst bv @ [t]) ts =
          drop_duplicates_from (\<lambda>x. x) (t # map fst bv) ts"
      by (rule ddf_seen_cong) auto
    then show ?thesis using False y Cons.IH by (simp add: update_keys)
  qed
qed

lemma fetch_betas_keys: "map fst (fst (fetch_betas yf ts w)) = unique ts"
  by (simp add: fetch_betas_def loop_keys unique_def drop_duplicates_def)

lemma filter_key_distinct:
  "distinct (map fst al) \<Longrightarrow>
   filter (\<lambda>b. fst b = k) al = (case map_of al k of None \<Rightarrow> [] | Some v \<Rightarrow> [(k, v)])"
proof (induction al)
  case Nil
  then show ?case by simp
next
  case (Cons a al)
  then show ?case
  proof (cases a)
    case (Pair k' v')
    show ?thesis
    proof (cases "k' = k")
      case True
      with Cons.prems Pair have "k \<notin> fst ` set al" by auto
      then have "filter (\<lambda>b. fst b = k) al = []" by (auto simp: filter_empty_conv)
      then show ?thesis using True Pair by simp
    next
      case False
      then show ?thesis using Cons Pair by simp
    qed
  qed
qed

lemma merge_left_distinct:
  "distinct (map fst right) \<Longrightarrow>
   merge_left left right = map (\<lambda>r. add_beta r (beta_for right (ticker r))) left"
  by (induction left) (simp_all add: merge_left_def filter_key_distinct beta_for_def split: option.splits)

lemma clean_data_eq:
  "fst (clean_data yf data w) =
     map (\<lambda>r. add_beta r (beta_for (fst (fetch_betas yf (unique (map ticker (priced data))) w)) (ticker r)))
       (priced data)"
proof -
  have "distinct (map fst (fst (fetch_betas yf (unique (map ticker (priced data))) w)))"
    by (simp add: fetch_betas_keys unique_distinct)
  then show ?thesis
    by (simp add: clean_data_def Let_def split_beta merge_left_distinct)
qed

subsection \<open>The cleaned table\<close>

lemma example_clean:
  "fst (clean_data example_yf example_cache (example_world 1)) =
     [example_aapl, example_aapl2, example_msft]"
  by (simp add: clean_data_def priced_def drop_duplicates_def dropna_def ticker_date_def
      add_market_cap_def times_cell_def unique_def fetch_betas_def merge_left_def add_beta_def
      example_cache_def example_yf_def example_world_def example_aapl_def example_aapl2_def
      example_msft_def)

lemma priced_cells:
  "r \<in> set (priced data) \<Longrightarrow>
   \<exists>p s. stock_price r = Some p \<and> shrout r = Some s \<and> market_cap r = Some (p * s * 1000)"
  by (auto simp: priced_def dropna_def add_market_cap_def times_cell_def)

lemma clean_row_origin:
  "r \<in> set (fst (clean_data yf data w)) \<Longrightarrow>
   \<exists>r0 b. r0 \<in> set (priced data) \<and> r = add_beta r0 b"
  by (auto simp: clean_data_eq)

lemma at_most_one_of_key:
  "distinct (map key xs) \<Longrightarrow> length (filter (\<lambda>r. key r = k) xs) \<le> 1"
proof (induction xs)
  case Nil
  then show ?case by simp
next
  case (Cons a xs)
  show ?case
  proof (cases "key a = k")
    case True
    with Cons.prems have "k \<notin> key ` set xs" by auto
    then have "filter (\<lambda>r. key r = k) xs = []" by (auto simp: filter_empty_conv)
    then show ?thesis using True by simp
  next
    case False
    then show ?thesis using Cons by simp
  qed
qed

lemma clean_data_keys:
  "map ticker_date (fst (clean_data yf data w)) =
   map ticker_date (dropna (drop_duplicates ticker_date data))"
  by (simp add: clean_data_eq priced_def ticker_date_def add_beta_def add_market_cap_def comp_def)

lemma clean_data_distinct_keys: "distinct (map ticker_date (fst (clean_data yf data w)))"
  by (simp add: clean_data_keys dropna_def drop_duplicates_def distinct_map_filter ddf_distinct)

lemma truncate_add_beta: "priced_row.truncate (add_beta r b) = r"
  by (cases r) (simp add: add_beta_def priced_row.truncate_def)

text \<open>
  C2: in every row of the table returned by \<open>clean_data\<close>, \<open>market_cap\<close> is
  \<open>stock_price\<close> times \<open>shrout\<close> times 1000; both factors are present, so the
  product is the product of two numbers.
\<close>

theorem clean_data_market_cap:
  "r \<in> set (fst (clean_data yf data w)) \<Longrightarrow>
   \<exists>p s. stock_price r = Some p \<and> shrout r = Some s \<and> market_cap r = Some (p * s * 1000)"
proof -
  assume "r \<in> set (fst (clean_data yf data w))"
  then obtain r0 b where r0: "r0 \<in> set (priced data)" and r: "r = add_beta r0 b"
    using clean_row_origin by blast
  from priced_cells [OF r0] show ?thesis
    by (simp add: r add_beta_def)
qed

theorem clean_data_market_cap_witness:
  "example_aapl \<in> set (fst (clean_data example_yf example_cache (example_world 1))) \<and>
   (\<exists>p s. stock_price example_aapl = Some p \<and> shrout example_aapl = Some s \<and>
      market_cap example_aapl = Some (p * s * 1000))"
proof -
  have h: "example_aapl \<in> set (fst (clean_data example_yf example_cache (example_world 1)))"
    using example_clean by simp
  from h clean_data_market_cap [OF h] show ?thesis by simp
qed

text \<open>
  C3: whatever the input table, and for every ticker \<open>t\<close> and date \<open>d\<close> (null
  included), the table returned by \<open>clean_data\<close> has at most one row whose ticker
  is \<open>t\<close> and whose date is \<open>d\<close>.
\<close>

theorem clean_data_one_row_per_ticker_date:
  "length (filter (\<lambda>r. ticker r = t \<and> date r = d) (fst (clean_data yf data w))) \<le> 1"
  using at_most_one_of_key [OF clean_data_distinct_keys, of "(t, d)" yf data w]
  by (simp add: ticker_date_def)

text \<open>
  C4: no row of the table returned by \<open>clean_data\<close> has a null \<open>stock_price\<close> or a
  null \<open>shrout\<close>.
\<close>

theorem clean_data_no_null_price_or_shrout:
  "r \<in> set (fst (clean_data yf data w)) \<Longrightarrow> stock_price r \<noteq> None \<and> shrout r \<noteq> None"
proof -
  assume "r \<in> set (fst (clean_data yf data w))"
  then obtain r0 b where r0: "r0 \<in> set (priced data)" and r: "r = add_beta r0 b"
    using clean_row_origin by blast
  from priced_cells [OF r0] show ?thesis
    by (auto simp: r add_beta_def)
qed

theorem clean_data_no_null_price_or_shrout_witness:
  "example_msft \<in> set (fst (clean_data example_yf example_cache (example_world 1))) \<and>
   stock_price example_msft \<noteq> None \<and> shrout example_msft \<noteq> None"
proof -
  have h: "example_msft \<in> set (fst (clean_data example_yf example_cache (example_world 1)))"
    using example_clean by simp
  from h clean_data_no_null_price_or_shrout [OF h] show ?thesis by simp
qed

text \<open>
  C8: in the table returned by \<open>clean_data\<close>, two rows with the same ticker carry
  the same beta, whatever their dates.
\<close>

theorem clean_data_beta_per_ticker:
  "r1 \<in> set (fst (clean_data yf data w)) \<Longrightarrow> r2 \<in> set (fst (clean_data yf data w)) \<Longrightarrow>
   ticker r1 = ticker r2 \<Longrightarrow> beta r1 = beta r2"
  by (auto simp: clean_data_eq add_beta_def)

theorem clean_data_beta_per_ticker_witness:
  "example_aapl \<in> set (fst (clean_data example_yf example_cache (example_world 1))) \<and>
   example_aapl2 \<in> set (fst (clean_data example_yf example_cache (example_world 1))) \<and>
   ticker example_aapl = ticker example_aapl2 \<and> date example_aapl \<noteq> date example_aapl2 \<and>
   beta example_aapl = beta example_aapl2"
proof -
  have h1: "example_aapl \<in> set (fst (clean_data example_yf example_cache (example_world 1)))"
    using example_clean by simp
  have h2: "example_aapl2 \<in> set (fst (clean_data example_yf example_cache (example_world 1)))"
    using example_clean by simp
  have h3: "ticker example_aapl = ticker example_aapl2"
    by (simp add: example_aapl_def example_aapl2_def)
  have h4: "date example_aapl \<noteq> date example_aapl2"
    by (simp add: example_aapl_def example_aapl2_def)
  from h1 h2 h3 h4 clean_data_beta_per_ticker [OF h1 h2 h3] show ?thesis by simp
qed

text \<open>
  C10: the frame returned by \<open>fetch_betas\<close> has exactly one row for each distinct
  input ticker (its tickers are pairwise different and are the input tickers), so the
  left merge of \<open>clean_data\<close> keeps the number of rows of the deduplicated,
  null-dropped table, and the result with the beta column taken away is that table:
  every other cell is unchanged.
\<close>

theorem merge_preserves_rows:
  "distinct (map fst (fst (fetch_betas yf tickers w))) \<and>
   set (map fst (fst (fetch_betas yf tickers w))) = set tickers \<and>
   length (fst (clean_data yf data w)) = length (priced data) \<and>
   map priced_row.truncate (fst (clean_data yf data w)) = priced data"
proof -
  have "map priced_row.truncate (fst (clean_data yf data w)) = priced data"
    by (simp add: clean_data_eq comp_def truncate_add_beta)
  moreover have "length (fst (clean_data yf data w)) = length (priced data)"
    by (simp add: clean_data_eq)
  ultimately show ?thesis
    by (simp add: fetch_betas_keys unique_distinct unique_set)
qed

subsection \<open>The beta lookups\<close>

lemma loop_untouched:
  "t \<notin> set ts \<Longrightarrow> map_of (fst (fetch_betas_loop yf ts bv w)) t = map_of bv t"
proof (induction ts arbitrary: bv w)
  case Nil
  then show ?case by simp
next
  case (Cons a ts)
  obtain rep s' where y: "yf (yf_state w) a = (rep, s')" by (cases "yf (yf_state w) a")
  from Cons.prems have "t \<notin> set ts" "a \<noteq> t" by auto
  then show ?case
    using Cons.IH [of "AList.update a (beta_of_reply rep) bv"] y
    by (simp add: update_conv')
qed

lemma loop_value:
  "distinct ts \<Longrightarrow> (t, rep) \<in> set (lookup_replies yf (yf_state w) ts) \<Longrightarrow>
   map_of (fst (fetch_betas_loop yf ts bv w)) t = Some (beta_of_reply rep)"
proof (induction ts arbitrary: bv w)
  case Nil
  then show ?case by simp
next
  case (Cons a ts)
  obtain rep' s' where y: "yf (yf_state w) a = (rep', s')" by (cases "yf (yf_state w) a")
  let ?w = "w\<lparr>yf_state := s', net_log := net_log w @ [Yf_Lookup a]\<rparr>"
  let ?bv = "AList.update a (beta_of_reply rep') bv"
  from Cons.prems(2) y
  have "(t, rep) = (a, rep') \<or> (t, rep) \<in> set (lookup_replies yf (yf_state ?w) ts)"
    by simp
  then show ?case
  proof
    assume eq: "(t, rep) = (a, rep')"
    with Cons.prems(1) have "t \<notin> set ts" by simp
    from loop_untouched [OF this, of yf ?bv ?w] eq y show ?thesis
      by (simp add: update_conv')
  next
    assume "(t, rep) \<in> set (lookup_replies yf (yf_state ?w) ts)"
    moreover from Cons.prems(1) have "distinct ts" by simp
    ultimately have "map_of (fst (fetch_betas_loop yf ts ?bv ?w)) t = Some (beta_of_reply rep)"
      by (rule Cons.IH [rotated])
    then show ?thesis using y by simp
  qed
qed

lemma loop_log:
  "net_log (snd (fetch_betas_loop yf ts bv w)) = net_log w @ map Yf_Lookup ts \<and>
   csv_file (snd (fetch_betas_loop yf ts bv w)) = csv_file w \<and>
   wrds_db (snd (fetch_betas_loop yf ts bv w)) = wrds_db w"
proof (induction ts arbitrary: bv w)
  case Nil
  then show ?case by simp
next
  case (Cons a ts)
  obtain rep s' where y: "yf (yf_state w) a = (rep, s')" by (cases "yf (yf_state w) a")
  show ?case
    using Cons.IH [of "AList.update a (beta_of_reply rep) bv"
                      "w\<lparr>yf_state := s', net_log := net_log w @ [Yf_Lookup a]\<rparr>"] y
    by simp
qed

lemma loop_replies:
  "fst (fetch_betas_loop yf ts bv w) =
     foldl (\<lambda>d tr. AList.update (fst tr) (beta_of_reply (snd tr)) d) bv
       (lookup_replies yf (yf_state w) ts)"
proof (induction ts arbitrary: bv w)
  case Nil
  then show ?case by simp
next
  case (Cons a ts)
  obtain rep s' where y: "yf (yf_state w) a = (rep, s')" by (cases "yf (yf_state w) a")
  show ?case
    using Cons.IH [of "AList.update a (beta_of_reply rep) bv"
                      "w\<lparr>yf_state := s', net_log := net_log w @ [Yf_Lookup a]\<rparr>"] y
    by simp
qed

lemma unique_of_distinct: "distinct xs \<Longrightarrow> unique xs = xs"
proof -
  have "distinct xs \<Longrightarrow> set xs \<inter> set seen = {} \<Longrightarrow> drop_duplicates_from (\<lambda>x. x) seen xs = xs"
    for seen
  proof (induction xs arbitrary: seen)
    case Nil
    then show ?case by simp
  next
    case (Cons a xs)
    from Cons.prems have "set xs \<inter> set (a # seen) = {}" "distinct xs" "a \<notin> set seen" by auto
    with Cons.IH [of "a # seen"] show ?case by simp
  qed
  from this [of "[]"] show "distinct xs \<Longrightarrow> unique xs = xs"
    by (simp add: unique_def drop_duplicates_def)
qed

text \<open>
  C5: let the tickers given to \<open>fetch_betas\<close> be pairwise different and let the
  lookup of \<open>t\<close> raise, or return a dictionary without a beta. Then \<open>fetch_betas\<close>
  still returns a row for \<open>t\<close>, with a null beta; it returns a row for every
  ticker and has looked every ticker up, so the failure stops nothing. In
  \<open>clean_data\<close>, where the tickers are those of the table, such a ticker has rows,
  and each of them is in the result with a null beta.
\<close>

theorem failed_lookup_keeps_ticker:
  "distinct tickers \<Longrightarrow>
   (t, rep) \<in> set (lookup_replies yf (yf_state w) tickers) \<Longrightarrow>
   rep = Raises \<or> (\<exists>info. rep = Info info \<and> info ''beta'' = None) \<Longrightarrow>
   (t, None) \<in> set (fst (fetch_betas yf tickers w)) \<and>
   map fst (fst (fetch_betas yf tickers w)) = tickers \<and>
   net_log (snd (fetch_betas yf tickers w)) = net_log w @ map Yf_Lookup tickers \<and>
   (tickers = unique (map ticker (priced data)) \<longrightarrow>
      (\<exists>r\<in>set (priced data). ticker r = t) \<and>
      (\<forall>r\<in>set (priced data). ticker r = t \<longrightarrow>
         add_beta r None \<in> set (fst (clean_data yf data w))))"
proof -
  assume d: "distinct tickers"
    and m: "(t, rep) \<in> set (lookup_replies yf (yf_state w) tickers)"
    and f: "rep = Raises \<or> (\<exists>info. rep = Info info \<and> info ''beta'' = None)"
  from f have none: "beta_of_reply rep = None" by auto
  have v: "map_of (fst (fetch_betas yf tickers w)) t = Some None"
    using loop_value [OF d m, of "[]"] none by (simp add: fetch_betas_def)
  then have entry: "(t, None) \<in> set (fst (fetch_betas yf tickers w))"
    by (rule map_of_SomeD)
  have keys: "map fst (fst (fetch_betas yf tickers w)) = tickers"
    by (simp add: fetch_betas_keys unique_of_distinct [OF d])
  have log: "net_log (snd (fetch_betas yf tickers w)) = net_log w @ map Yf_Lookup tickers"
    by (simp add: fetch_betas_def loop_log)
  have rows: "(\<exists>r\<in>set (priced data). ticker r = t) \<and>
      (\<forall>r\<in>set (priced data). ticker r = t \<longrightarrow>
         add_beta r None \<in> set (fst (clean_data yf data w)))"
    if eq: "tickers = unique (map ticker (priced data))"
  proof -
    from entry have "t \<in> set (map fst (fst (fetch_betas yf tickers w)))"
      by (metis fst_conv image_eqI set_map)
    then have "t \<in> set tickers" by (simp add: keys)
    then have ex: "\<exists>r\<in>set (priced data). ticker r = t"
      by (auto simp: eq unique_set)
    have "beta_for (fst (fetch_betas yf (unique (map ticker (priced data))) w)) t = None"
      using v by (simp add: beta_for_def eq)
    then have "\<forall>r\<in>set (priced data). ticker r = t \<longrightarrow>
         add_beta r None \<in> set (fst (clean_data yf data w))"
      by (auto simp: clean_data_eq image_iff intro!: bexI)
    with ex show ?thesis by simp
  qed
  from entry keys log rows show ?thesis by blast
qed


lemma example_priced_tickers:
  "unique (map ticker (priced example_cache)) = [Some ''AAPL'', Some ''MSFT'']"
  by (simp add: priced_def drop_duplicates_def dropna_def ticker_date_def
      add_market_cap_def times_cell_def unique_def example_cache_def)

lemma example_priced_msft:
  "\<lparr>permno = Some 10107, date = Some 19000, stock_price = Some 3, shrout = Some 4,
    volume = Some 8, ticker = Some ''MSFT'', market_cap = Some (12000::rat)\<rparr>
     \<in> set (priced example_cache)"
  by (simp add: priced_def drop_duplicates_def dropna_def ticker_date_def
      add_market_cap_def times_cell_def example_cache_def)

theorem failed_lookup_keeps_ticker_witness:
  "distinct [Some ''AAPL'', Some ''MSFT''] \<and>
   (Some ''MSFT'', Raises) \<in>
     set (lookup_replies example_yf (yf_state (example_world 1)) [Some ''AAPL'', Some ''MSFT'']) \<and>
   [Some ''AAPL'', Some ''MSFT''] = unique (map ticker (priced example_cache)) \<and>
   (Some ''MSFT'', None) \<in>
     set (fst (fetch_betas example_yf [Some ''AAPL'', Some ''MSFT''] (example_world 1))) \<and>
   (\<exists>r\<in>set (priced example_cache). ticker r = Some ''MSFT'') \<and>
   example_msft \<in> set (fst (clean_data example_yf example_cache (example_world 1))) \<and>
   ticker example_msft = Some ''MSFT'' \<and> beta example_msft = None"
proof -
  let ?r0 = "\<lparr>permno = Some 10107, date = Some 19000, stock_price = Some 3, shrout = Some 4,
    volume = Some 8, ticker = Some ''MSFT'', market_cap = Some (12000::rat)\<rparr>"
  have h1: "distinct [Some ''AAPL'', Some ''MSFT'']" by simp
  have h2: "(Some ''MSFT'', Raises) \<in>
     set (lookup_replies example_yf (yf_state (example_world 1)) [Some ''AAPL'', Some ''MSFT''])"
    by (simp add: example_yf_def example_world_def)
  have h3: "(Raises :: rat reply) = Raises \<or> (\<exists>info. (Raises :: rat reply) = Info info \<and> info ''beta'' = None)"
    by simp
  have h4: "[Some ''AAPL'', Some ''MSFT''] = unique (map ticker (priced example_cache))"
    by (simp only: example_priced_tickers)
  note c = failed_lookup_keeps_ticker [OF h1 h2 h3, of example_cache]
  from c have entry: "(Some ''MSFT'', None) \<in>
     set (fst (fetch_betas example_yf [Some ''AAPL'', Some ''MSFT''] (example_world 1)))"
    by (rule conjunct1)
  from c h4 have rows: "(\<exists>r\<in>set (priced example_cache). ticker r = Some ''MSFT'') \<and>
      (\<forall>r\<in>set (priced example_cache). ticker r = Some ''MSFT'' \<longrightarrow>
         add_beta r None \<in> set (fst (clean_data example_yf example_cache (example_world 1))))"
    by blast
  then have "add_beta ?r0 None \<in> set (fst (clean_data example_yf example_cache (example_world 1)))"
    using example_priced_msft by simp
  moreover have "add_beta ?r0 None = example_msft"
    by (simp add: add_beta_def example_msft_def)
  ultimately have m: "example_msft \<in> set (fst (clean_data example_yf example_cache (example_world 1)))"
    by (simp only:)
  have t: "ticker example_msft = Some ''MSFT'' \<and> beta example_msft = None"
    by (simp add: example_msft_def)
  from h1 h2 h4 entry rows m t show ?thesis by (intro conjI) (simp_all only:)
qed

subsection \<open>The callbacks\<close>

lemma distinct_sectors: "distinct (map fst SECTOR_TICKERS)"
  by (simp add: SECTOR_TICKERS_def)

lemma sector_lookup_member: "(s, ts) \<in> set SECTOR_TICKERS \<Longrightarrow> sector_lookup (Some s) = Inr ts"
  using map_of_is_SomeI [OF distinct_sectors] by (simp add: sector_lookup_def)

text \<open>
  C7: for every sector \<open>s\<close> of the static table, with member tickers \<open>ts\<close>,
  \<open>update_ticker_dropdown\<close> returns options whose values are \<open>ts\<close>, in that
  order; and the initial value of the sector dropdown is the first sector of the
  table.
\<close>

theorem update_ticker_dropdown_members:
  "(s, ts) \<in> set SECTOR_TICKERS \<Longrightarrow>
   (\<exists>opts. update_ticker_dropdown (Some s) = Inr opts \<and> map opt_value opts = ts) \<and>
   SECTOR_TICKERS \<noteq> [] \<and> sector_dropdown_value = Inr (fst (hd SECTOR_TICKERS))"
proof -
  assume "(s, ts) \<in> set SECTOR_TICKERS"
  then have "sector_lookup (Some s) = Inr ts" by (rule sector_lookup_member)
  then have "\<exists>opts. update_ticker_dropdown (Some s) = Inr opts \<and> map opt_value opts = ts"
    by (simp add: update_ticker_dropdown_def comp_def)
  moreover have "SECTOR_TICKERS \<noteq> [] \<and> sector_dropdown_value = Inr (fst (hd SECTOR_TICKERS))"
    by (simp add: sector_dropdown_value_def SECTOR_TICKERS_def)
  ultimately show ?thesis by simp
qed

theorem update_ticker_dropdown_members_witness:
  "(''Energy'', [''XOM'', ''CVX'', ''BP'', ''TOT'', ''COP'', ''ENB'', ''EOG'', ''KMI'', ''SLB'', ''OXY''])
     \<in> set SECTOR_TICKERS \<and>
   (\<exists>opts. update_ticker_dropdown (Some ''Energy'') = Inr opts \<and>
      map opt_value opts = [''XOM'', ''CVX'', ''BP'', ''TOT'', ''COP'', ''ENB'', ''EOG'', ''KMI'', ''SLB'', ''OXY'']) \<and>
   sector_dropdown_value = Inr ''Technology''"
proof -
  have h: "(''Energy'', [''XOM'', ''CVX'', ''BP'', ''TOT'', ''COP'', ''ENB'', ''EOG'', ''KMI'', ''SLB'', ''OXY''])
     \<in> set SECTOR_TICKERS"
    by (simp add: SECTOR_TICKERS_def)
  have "fst (hd SECTOR_TICKERS) = ''Technology''"
    by (simp add: SECTOR_TICKERS_def)
  with h update_ticker_dropdown_members [OF h] show ?thesis by simp
qed

text \<open>
  C6 does not hold for every sector value: the sector dropdown can be cleared, the
  callback then receives \<open>None\<close>, and \<^verbatim>\<open>SECTOR_TICKERS[sector]\<close> raises
  \<^verbatim>\<open>KeyError\<close> before anything is rendered, also with no ticker selected.
\<close>

theorem update_dashboard_cleared_sector:
  "update_dashboard [example_aapl, example_aapl2, example_msft] None None = Inl KeyError"
  by (simp add: update_dashboard_def sector_lookup_def)

lemma sector_lookup_not_key:
  "sector \<notin> Some ` fst ` set SECTOR_TICKERS \<Longrightarrow> sector_lookup sector = Inl KeyError"
proof (cases sector)
  case None
  then show ?thesis by (simp add: sector_lookup_def)
next
  case (Some s)
  assume "sector \<notin> Some ` fst ` set SECTOR_TICKERS"
  with Some have "s \<notin> fst ` set SECTOR_TICKERS" by auto
  then have "map_of SECTOR_TICKERS s = None" by (simp add: map_of_eq_None_iff)
  with Some show ?thesis by (simp add: sector_lookup_def)
qed

lemma sector_rows_filter:
  "sector_rows data ts = filter (\<lambda>r. \<exists>u\<in>set ts. ticker r = Some u) data"
  unfolding sector_rows_def
  by (rule filter_cong) (auto simp: isin_def split: option.splits)

text \<open>
  C6, as the code has it. For a sector \<open>s\<close> of the static table with member
  tickers \<open>ts\<close>: when the selected tickers are \<open>None\<close> or the empty list,
  \<open>update_dashboard\<close> raises nothing and returns the averages of the market cap, the
  price and the beta over exactly those rows of the table whose ticker is in \<open>ts\<close>,
  together with two empty figures. For a sector value that is not a key of the table
  (\<open>None\<close> included) the callback raises \<^verbatim>\<open>KeyError\<close>, whatever is selected.
\<close>

theorem update_dashboard_no_selection:
  "((s, ts) \<in> set SECTOR_TICKERS \<longrightarrow> selected = None \<or> selected = Some [] \<longrightarrow>
      rows = filter (\<lambda>r. \<exists>u\<in>set ts. ticker r = Some u) data \<longrightarrow>
      update_dashboard data (Some s) selected =
        Inr (Div [H4 ''Sector Averages'',
                  Ul [Li (Fmt ''Average Market Cap: $'' (mean (map market_cap rows))),
                      Li (Fmt ''Average Stock Price: $'' (mean (map stock_price rows))),
                      Li (Fmt ''Average Beta: '' (mean (map beta rows)))]],
             Empty_Figure, Empty_Figure)) \<and>
   (sector \<notin> Some ` fst ` set SECTOR_TICKERS \<longrightarrow>
      update_dashboard data sector chosen = Inl KeyError)"
proof (intro conjI impI)
  assume "(s, ts) \<in> set SECTOR_TICKERS" and sel: "selected = None \<or> selected = Some []"
    and rows: "rows = filter (\<lambda>r. \<exists>u\<in>set ts. ticker r = Some u) data"
  then have l: "sector_lookup (Some s) = Inr ts" by (simp add: sector_lookup_member)
  from sel show "update_dashboard data (Some s) selected =
        Inr (Div [H4 ''Sector Averages'',
                  Ul [Li (Fmt ''Average Market Cap: $'' (mean (map market_cap rows))),
                      Li (Fmt ''Average Stock Price: $'' (mean (map stock_price rows))),
                      Li (Fmt ''Average Beta: '' (mean (map beta rows)))]],
             Empty_Figure, Empty_Figure)"
    by (auto simp: update_dashboard_def Let_def l averages_of_def sector_rows_filter rows)
next
  assume "sector \<notin> Some ` fst ` set SECTOR_TICKERS"
  then show "update_dashboard data sector chosen = Inl KeyError"
    by (simp add: update_dashboard_def sector_lookup_not_key)
qed

lemma technology_sector:
  "(''Technology'', [''AAPL'', ''MSFT'', ''GOOG'', ''NVDA'', ''AMD'', ''ORCL'', ''CRM'', ''ADBE'', ''INTC'', ''HPQ''])
     \<in> set SECTOR_TICKERS"
  by (simp add: SECTOR_TICKERS_def)

lemma example_technology_rows:
  "filter (\<lambda>r. \<exists>u\<in>set [''AAPL'', ''MSFT'', ''GOOG'', ''NVDA'', ''AMD'', ''ORCL'', ''CRM'', ''ADBE'', ''INTC'', ''HPQ''].
              ticker r = Some u) example_table =
   [example_aapl, example_aapl2, example_msft]"
  by (simp add: example_table_def example_aapl_def example_aapl2_def example_msft_def
      example_jpm_def)

lemma example_technology_means:
  "mean (map market_cap [example_aapl, example_aapl2, example_msft]) = Some (56000 / 3) \<and>
   mean (map stock_price [example_aapl, example_aapl2, example_msft]) = Some (25 / 3) \<and>
   mean (map beta [example_aapl, example_aapl2, example_msft]) = Some 1"
  by (simp add: mean_def List.map_filter_def example_aapl_def example_aapl2_def example_msft_def)

lemma not_sector_keys:
  "None \<notin> Some ` fst ` set SECTOR_TICKERS \<and> Some ''Crypto'' \<notin> Some ` fst ` set SECTOR_TICKERS"
  by (auto simp: SECTOR_TICKERS_def)

theorem update_dashboard_no_selection_witness:
  "(''Technology'', [''AAPL'', ''MSFT'', ''GOOG'', ''NVDA'', ''AMD'', ''ORCL'', ''CRM'', ''ADBE'', ''INTC'', ''HPQ''])
     \<in> set SECTOR_TICKERS \<and>
   example_jpm \<in> set example_table \<and>
   filter (\<lambda>r. \<exists>u\<in>set [''AAPL'', ''MSFT'', ''GOOG'', ''NVDA'', ''AMD'', ''ORCL'', ''CRM'', ''ADBE'', ''INTC'', ''HPQ''].
              ticker r = Some u) example_table =
     [example_aapl, example_aapl2, example_msft] \<and>
   update_dashboard example_table (Some ''Technology'') (Some []) =
     Inr (Div [H4 ''Sector Averages'',
               Ul [Li (Fmt ''Average Market Cap: $'' (Some (56000 / 3))),
                   Li (Fmt ''Average Stock Price: $'' (Some (25 / 3))),
                   Li (Fmt ''Average Beta: '' (Some 1))]],
          Empty_Figure, Empty_Figure) \<and>
   update_dashboard example_table (Some ''Technology'') None =
     Inr (Div [H4 ''Sector Averages'',
               Ul [Li (Fmt ''Average Market Cap: $'' (Some (56000 / 3))),
                   Li (Fmt ''Average Stock Price: $'' (Some (25 / 3))),
                   Li (Fmt ''Average Beta: '' (Some 1))]],
          Empty_Figure, Empty_Figure) \<and>
   None \<notin> Some ` fst ` set SECTOR_TICKERS \<and>
   update_dashboard example_table None (Some [''AAPL'']) = Inl KeyError \<and>
   Some ''Crypto'' \<notin> Some ` fst ` set SECTOR_TICKERS \<and>
   update_dashboard example_table (Some ''Crypto'') None = Inl KeyError"
proof -
  let ?tech = "[''AAPL'', ''MSFT'', ''GOOG'', ''NVDA'', ''AMD'', ''ORCL'', ''CRM'', ''ADBE'', ''INTC'', ''HPQ'']"
  let ?rows = "[example_aapl, example_aapl2, example_msft]"
  have jpm: "example_jpm \<in> set example_table" by (simp add: example_table_def)
  have rows: "?rows = filter (\<lambda>r. \<exists>u\<in>set ?tech. ticker r = Some u) example_table"
    by (simp only: example_technology_rows)
  have s1: "Some ([]::string list) = None \<or> Some ([]::string list) = Some []" by simp
  have s2: "(None::string list option) = None \<or> (None::string list option) = Some []" by simp
  from update_dashboard_no_selection [of "''Technology''" ?tech "Some []" ?rows example_table None None]
    technology_sector s1 rows
  have r1: "update_dashboard example_table (Some ''Technology'') (Some []) =
     Inr (Div [H4 ''Sector Averages'',
               Ul [Li (Fmt ''Average Market Cap: $'' (mean (map market_cap ?rows))),
                   Li (Fmt ''Average Stock Price: $'' (mean (map stock_price ?rows))),
                   Li (Fmt ''Average Beta: '' (mean (map beta ?rows)))]],
          Empty_Figure, Empty_Figure)"
    by blast
  from update_dashboard_no_selection [of "''Technology''" ?tech None ?rows example_table None None]
    technology_sector s2 rows
  have r2: "update_dashboard example_table (Some ''Technology'') None =
     Inr (Div [H4 ''Sector Averages'',
               Ul [Li (Fmt ''Average Market Cap: $'' (mean (map market_cap ?rows))),
                   Li (Fmt ''Average Stock Price: $'' (mean (map stock_price ?rows))),
                   Li (Fmt ''Average Beta: '' (mean (map beta ?rows)))]],
          Empty_Figure, Empty_Figure)"
    by blast
  from update_dashboard_no_selection [of "''Technology''" ?tech None ?rows example_table None "Some [''AAPL'']"]
    not_sector_keys
  have k1: "update_dashboard example_table None (Some [''AAPL'']) = Inl KeyError"
    by blast
  from update_dashboard_no_selection [of "''Technology''" ?tech None ?rows example_table "Some ''Crypto''" None]
    not_sector_keys
  have k2: "update_dashboard example_table (Some ''Crypto'') None = Inl KeyError"
    by blast
  from technology_sector jpm example_technology_rows r1 r2 not_sector_keys k1 k2
  show ?thesis
    by (simp only: example_technology_means simp_thms)
qed












subsection \<open>Starting from the cache\<close>

lemma fetch_betas_replies:
  "lookup_replies yf1 (yf_state w1) ts = lookup_replies yf2 (yf_state w2) ts \<Longrightarrow>
   fst (fetch_betas yf1 ts w1) = fst (fetch_betas yf2 ts w2)"
  by (simp add: fetch_betas_def loop_replies)

lemma clean_data_replies:
  "lookup_replies yf1 (yf_state w1) (unique (map ticker (priced data))) =
   lookup_replies yf2 (yf_state w2) (unique (map ticker (priced data))) \<Longrightarrow>
   fst (clean_data yf1 data w1) = fst (clean_data yf2 data w2)"
  using fetch_betas_replies [of yf1 w1 "unique (map ticker (priced data))" yf2 w2]
  by (simp add: clean_data_eq)

lemma clean_data_log:
  "net_log (snd (clean_data yf data w)) =
     net_log w @ map Yf_Lookup (unique (map ticker (priced data)))"
  by (simp add: clean_data_def Let_def split_beta fetch_betas_def loop_log)

lemma load_and_clean_cached:
  "csv_file w = Some cached \<Longrightarrow>
   load_and_clean yf w = (Inr (fst (clean_data yf cached w)), snd (clean_data yf cached w))"
  by (simp add: load_and_clean_def get_or_download_data_def split_beta)

text \<open>
  C1, as the code has it: when the cache file exists, \<open>get_or_download_data\<close>
  returns its content without any network request and without touching the world;
  the start of the program then sends exactly one beta lookup for each distinct ticker
  of the deduplicated, null-dropped table. Two such starts from the same cache content
  whose lookups get the same replies produce the same cleaned table (and the callbacks
  are functions of that table and the selections).
\<close>

theorem cached_start:
  "csv_file w1 = Some cached \<Longrightarrow> csv_file w2 = Some cached \<Longrightarrow>
   lookup_replies yf1 (yf_state w1) (unique (map ticker (priced cached))) =
   lookup_replies yf2 (yf_state w2) (unique (map ticker (priced cached))) \<Longrightarrow>
   get_or_download_data w1 = (Inr cached, w1) \<and>
   net_log (snd (load_and_clean yf1 w1)) =
     net_log w1 @ map Yf_Lookup (unique (map ticker (priced cached))) \<and>
   fst (load_and_clean yf1 w1) = fst (load_and_clean yf2 w2) \<and>
   (\<exists>cleaned. fst (load_and_clean yf1 w1) = Inr cleaned \<and>
      fst (load_and_clean yf2 w2) = Inr cleaned)"
proof -
  assume c1: "csv_file w1 = Some cached" and c2: "csv_file w2 = Some cached"
    and r: "lookup_replies yf1 (yf_state w1) (unique (map ticker (priced cached))) =
            lookup_replies yf2 (yf_state w2) (unique (map ticker (priced cached)))"
  have "get_or_download_data w1 = (Inr cached, w1)"
    using c1 by (simp add: get_or_download_data_def)
  moreover have "net_log (snd (load_and_clean yf1 w1)) =
      net_log w1 @ map Yf_Lookup (unique (map ticker (priced cached)))"
    by (simp add: load_and_clean_cached [OF c1] clean_data_log)
  moreover have "fst (load_and_clean yf1 w1) = fst (load_and_clean yf2 w2)"
    using clean_data_replies [OF r] by (simp add: load_and_clean_cached [OF c1] load_and_clean_cached [OF c2])
  moreover have "\<exists>cleaned. fst (load_and_clean yf1 w1) = Inr cleaned \<and>
      fst (load_and_clean yf2 w2) = Inr cleaned"
    using clean_data_replies [OF r] by (simp add: load_and_clean_cached [OF c1] load_and_clean_cached [OF c2])
  ultimately show ?thesis by simp
qed

lemma example_load_1:
  "load_and_clean example_yf (example_world 1) =
     (Inr [example_aapl, example_aapl2, example_msft],
      \<lparr>csv_file = Some example_cache, wrds_db = None, yf_state = 3,
       net_log = [Yf_Lookup (Some ''AAPL''), Yf_Lookup (Some ''MSFT'')]\<rparr>)"
  by (simp add: load_and_clean_def get_or_download_data_def
      clean_data_def priced_def drop_duplicates_def dropna_def ticker_date_def
      add_market_cap_def times_cell_def unique_def fetch_betas_def merge_left_def add_beta_def
      example_cache_def example_yf_def example_world_def example_aapl_def example_aapl2_def
      example_msft_def)

theorem cached_start_witness:
  "csv_file (example_world 1) = Some example_cache \<and>
   csv_file ((example_world 1)\<lparr>wrds_db := Some \<lparr>dsf = [], msenames = []\<rparr>\<rparr>) = Some example_cache \<and>
   lookup_replies example_yf (yf_state (example_world 1)) (unique (map ticker (priced example_cache))) =
   lookup_replies example_yf (yf_state ((example_world 1)\<lparr>wrds_db := Some \<lparr>dsf = [], msenames = []\<rparr>\<rparr>))
     (unique (map ticker (priced example_cache))) \<and>
   get_or_download_data (example_world 1) = (Inr example_cache, example_world 1) \<and>
   net_log (snd (load_and_clean example_yf (example_world 1))) =
     [Yf_Lookup (Some ''AAPL''), Yf_Lookup (Some ''MSFT'')] \<and>
   fst (load_and_clean example_yf (example_world 1)) =
     Inr [example_aapl, example_aapl2, example_msft] \<and>
   fst (load_and_clean example_yf ((example_world 1)\<lparr>wrds_db := Some \<lparr>dsf = [], msenames = []\<rparr>\<rparr>)) =
     Inr [example_aapl, example_aapl2, example_msft]"
proof -
  let ?w2 = "(example_world 1)\<lparr>wrds_db := Some \<lparr>dsf = [], msenames = []\<rparr>\<rparr>"
  let ?T = "unique (map ticker (priced example_cache))"
  have h1: "csv_file (example_world 1) = Some example_cache"
    by (simp add: example_world_def)
  have h2: "csv_file ?w2 = Some example_cache"
    by (simp add: example_world_def)
  have h3: "lookup_replies example_yf (yf_state (example_world 1)) ?T =
            lookup_replies example_yf (yf_state ?w2) ?T"
    by (simp add: example_world_def)
  have l: "net_log (example_world 1) = []"
    by (simp add: example_world_def)
  have e: "fst (load_and_clean example_yf (example_world 1)) =
      Inr [example_aapl, example_aapl2, example_msft]"
    by (simp only: example_load_1 fst_conv)
  note c = cached_start [OF h1 h2 h3]
  from c have g: "get_or_download_data (example_world 1) = (Inr example_cache, example_world 1)"
    by (rule conjunct1)
  from c have "net_log (snd (load_and_clean example_yf (example_world 1))) =
      net_log (example_world 1) @ map Yf_Lookup ?T"
    by (elim conjE)
  then have n: "net_log (snd (load_and_clean example_yf (example_world 1))) =
     [Yf_Lookup (Some ''AAPL''), Yf_Lookup (Some ''MSFT'')]"
    by (simp only: l example_priced_tickers list.map append_Nil)
  from c have "fst (load_and_clean example_yf (example_world 1)) =
      fst (load_and_clean example_yf ?w2)"
    by (elim conjE)
  with e have e2: "fst (load_and_clean example_yf ?w2) =
      Inr [example_aapl, example_aapl2, example_msft]"
    by (simp only:)
  from h1 h2 h3 g n e e2 show ?thesis by (intro conjI)
qed

text \<open>
  C1 does not hold as stated: two starts from the same existing cache file, the
  second with the beta service in another state, give different cleaned tables, and
  the start sends two requests over the network.
\<close>

theorem cached_runs_differ:
  "csv_file (example_world 1) = Some example_cache \<and>
   csv_file (example_world 2) = Some example_cache \<and>
   fst (load_and_clean example_yf (example_world 1)) \<noteq>
   fst (load_and_clean example_yf (example_world 2)) \<and>
   net_log (example_world 1) = [] \<and>
   net_log (snd (load_and_clean example_yf (example_world 1))) =
     [Yf_Lookup (Some ''AAPL''), Yf_Lookup (Some ''MSFT'')]"
  by (simp add: load_and_clean_def get_or_download_data_def
      clean_data_def priced_def drop_duplicates_def dropna_def ticker_date_def
      add_market_cap_def times_cell_def unique_def fetch_betas_def merge_left_def add_beta_def
      example_cache_def example_yf_def example_world_def)

end
